theory Spec2Isabelle
  imports Main "HOL-Library.Sublist"
begin

section \<open>The page-object layer of WebBotX (src/page/Page.ts)\<close>

text \<open>
  The file embeds the classes \<open>PageElement\<close> and \<open>PageElements\<close> of
  \<^verbatim>\<open>src/page/Page.ts\<close>. The selenium driver is an opaque capability: it is a
  record of functions over a world \<open>'w\<close> that the driver owns, and every call made to it
  is appended to a trace, so that the number of waits and clicks can be read off.
  Asynchronous calls are modelled by their settled outcome: a rejected promise is
  \<open>Inl\<close> of the thrown value, a fulfilled one is \<open>Inr\<close> of the result.
\<close>

subsection \<open>JavaScript values\<close>

text \<open>
  An optional property of an object literal is absent, present with the value
  \<^verbatim>\<open>undefined\<close>, or present with a value. Reading it gives \<^verbatim>\<open>undefined\<close> in the
  first two cases.
\<close>

datatype 'a property = Absent | Undefined | Val 'a

fun get_prop :: "'a property \<Rightarrow> 'a option" where
  "get_prop Absent = None"
| "get_prop Undefined = None"
| "get_prop (Val v) = Some v"

text \<open>
  A thrown value is either an \<^verbatim>\<open>Error\<close> built by this code with \<^verbatim>\<open>new Error(msg)\<close>
  or a failure raised below it (by selenium or by the engine), which is known by its
  string rendering only. \<open>toString\<close> is what a template literal \<^verbatim>\<open>${err}\<close> yields.
\<close>

datatype thrown = Error string | Foreign string

fun toString :: "thrown \<Rightarrow> string" where
  "toString (Error m) = (if m = [] then ''Error'' else ''Error: '' @ m)"
| "toString (Foreign s) = s"

text \<open>Template rendering of a string that may be \<^verbatim>\<open>undefined\<close>, and of an integral number.\<close>

fun str_of :: "string option \<Rightarrow> string" where
  "str_of None = ''undefined''"
| "str_of (Some s) = s"

fun digits :: "nat \<Rightarrow> string" where
  "digits n = (if n < 10 then [''0123456789'' ! n]
               else digits (n div 10) @ [''0123456789'' ! (n mod 10)])"

definition num_str :: "int \<Rightarrow> string" where
  "num_str i = (if i < 0 then ''-'' @ digits (nat (- i)) else digits (nat i))"

text \<open>
  The type \<^verbatim>\<open>WebElement | Promise<WebElement>\<close> of a preresolved element: a plain
  handle, or a promise taken at its settled state. \<open>await\<close> is the \<^verbatim>\<open>await\<close> operator.
\<close>

datatype 'e awaitable = Plain 'e | Fulfilled 'e | Rejected thrown

fun await :: "'e awaitable \<Rightarrow> thrown + 'e" where
  "await (Plain e) = Inr e"
| "await (Fulfilled e) = Inr e"
| "await (Rejected t) = Inl t"

text \<open>
  Reading an array at a number: \<^verbatim>\<open>xs[i]\<close> is \<^verbatim>\<open>undefined\<close> outside \<open>0 \<le> i < length\<close>.
\<close>

definition js_index :: "'a list \<Rightarrow> int \<Rightarrow> 'a option" where
  "js_index xs i = (if 0 \<le> i \<and> i < int (length xs) then Some (xs ! nat i) else None)"

subsection \<open>PageElementConfiguration and its defaults\<close>

text \<open>
  Numbers are taken integral, as the configuration documents them (a retry count, a
  timeout in milliseconds, an index). The literal of \<open>describe\<close> is Chinese text in the
  source (it says that the located element cannot be found); it is given by its UTF-8 bytes.
\<close>

record 'e PageElementConfiguration =
  retires :: "int property"
  timeout :: "int property"
  describe :: "string property"
  index :: "int property"
  element :: "'e awaitable property"

definition DEFAULT_DESCRIBE :: string where
  "DEFAULT_DESCRIBE =
     [CHR 0xE6, CHR 0x89, CHR 0xBE, CHR 0xE4, CHR 0xB8, CHR 0x8D, CHR 0xE5, CHR 0x88,
      CHR 0xB0, CHR 0xE5, CHR 0xAE, CHR 0x9A, CHR 0xE4, CHR 0xBD, CHR 0x8D, CHR 0xE5,
      CHR 0x85, CHR 0x83, CHR 0xE7, CHR 0xB4, CHR 0xA0]"

definition DEFAULT_CONFIGURATION :: "'e PageElementConfiguration" where
  "DEFAULT_CONFIGURATION =
     \<lparr>retires = Val 1, timeout = Val 5000, describe = Val DEFAULT_DESCRIBE,
      index = Val 0, element = Undefined\<rparr>"

text \<open>
  \<^verbatim>\<open>Object.assign(target, source)\<close> copies every own property of the source, also one
  whose value is \<^verbatim>\<open>undefined\<close>; \<open>empty_object\<close> is \<^verbatim>\<open>{}\<close>.
\<close>

definition assign_prop :: "'a property \<Rightarrow> 'a property \<Rightarrow> 'a property" where
  "assign_prop target source = (case source of Absent \<Rightarrow> target | _ \<Rightarrow> source)"

definition empty_object :: "'e PageElementConfiguration" where
  "empty_object =
     \<lparr>retires = Absent, timeout = Absent, describe = Absent, index = Absent,
      element = Absent\<rparr>"

definition Object_assign ::
  "'e PageElementConfiguration \<Rightarrow> 'e PageElementConfiguration \<Rightarrow> 'e PageElementConfiguration"
where
  "Object_assign target source =
     \<lparr>retires = assign_prop (retires target) (retires source),
      timeout = assign_prop (timeout target) (timeout source),
      describe = assign_prop (describe target) (describe source),
      index = assign_prop (index target) (index source),
      element = assign_prop (element target) (element source)\<rparr>"

subsection \<open>The driver and the trace of calls made to it\<close>

text \<open>
  A locator is used in two ways only: it is handed to the driver and it is rendered into
  error messages. It is modelled by its rendering.
\<close>

type_synonym locator = string

datatype elem_method =
    Click | SendKeys string | Clear | GetAttribute string | GetText | GetTagName
  | IsEnabled | IsSelected | IsDisplayed

datatype mouse_action = ContextClick | DoubleClick | Move

datatype jsval = Void | Str string | Bool bool

record ('w, 'e) WebDriver =
  wait_elementLocated :: "locator \<Rightarrow> int \<Rightarrow> string option \<Rightarrow> 'w \<Rightarrow> (thrown + 'e) \<times> 'w"
  wait_elementIsVisible :: "'e option \<Rightarrow> int \<Rightarrow> string \<Rightarrow> 'w \<Rightarrow> (thrown + unit) \<times> 'w"
  findElements :: "locator \<Rightarrow> 'w \<Rightarrow> (thrown + 'e list) \<times> 'w"
  element_call :: "elem_method \<Rightarrow> 'e \<Rightarrow> 'w \<Rightarrow> (thrown + jsval) \<times> 'w"
  actions_perform :: "mouse_action \<Rightarrow> 'e option \<Rightarrow> 'w \<Rightarrow> (thrown + jsval) \<times> 'w"

datatype 'e call =
    WaitLocated locator int "string option"
  | WaitVisible "'e option" int string
  | FindElements locator
  | ElementCall elem_method 'e
  | ActionsPerform mouse_action "'e option"

record ('w, 'e) st =
  world :: 'w
  calls :: "'e call list"

definition driver_wait_located ::
  "('w, 'e) WebDriver \<Rightarrow> locator \<Rightarrow> int \<Rightarrow> string option \<Rightarrow> ('w, 'e) st
     \<Rightarrow> (thrown + 'e) \<times> ('w, 'e) st"
where
  "driver_wait_located d loc t msg s =
     (case wait_elementLocated d loc t msg (world s) of
        (r, w) \<Rightarrow> (r, \<lparr>world = w, calls = calls s @ [WaitLocated loc t msg]\<rparr>))"

definition driver_wait_visible ::
  "('w, 'e) WebDriver \<Rightarrow> 'e option \<Rightarrow> int \<Rightarrow> string \<Rightarrow> ('w, 'e) st
     \<Rightarrow> (thrown + unit) \<times> ('w, 'e) st"
where
  "driver_wait_visible d elem t msg s =
     (case wait_elementIsVisible d elem t msg (world s) of
        (r, w) \<Rightarrow> (r, \<lparr>world = w, calls = calls s @ [WaitVisible elem t msg]\<rparr>))"

definition driver_findElements ::
  "('w, 'e) WebDriver \<Rightarrow> locator \<Rightarrow> ('w, 'e) st \<Rightarrow> (thrown + 'e list) \<times> ('w, 'e) st"
where
  "driver_findElements d loc s =
     (case findElements d loc (world s) of
        (r, w) \<Rightarrow> (r, \<lparr>world = w, calls = calls s @ [FindElements loc]\<rparr>))"

definition driver_actions ::
  "('w, 'e) WebDriver \<Rightarrow> mouse_action \<Rightarrow> 'e option \<Rightarrow> ('w, 'e) st
     \<Rightarrow> (thrown + jsval) \<times> ('w, 'e) st"
where
  "driver_actions d a elem s =
     (case actions_perform d a elem (world s) of
        (r, w) \<Rightarrow> (r, \<lparr>world = w, calls = calls s @ [ActionsPerform a elem]\<rparr>))"

text \<open>
  A method call \<^verbatim>\<open>elem.m(...)\<close>. On an \<^verbatim>\<open>undefined\<close> receiver the engine throws a
  TypeError before the driver is reached; the text is the one of V8.
\<close>

fun method_name :: "elem_method \<Rightarrow> string" where
  "method_name Click = ''click''"
| "method_name (SendKeys _) = ''sendKeys''"
| "method_name Clear = ''clear''"
| "method_name (GetAttribute _) = ''getAttribute''"
| "method_name GetText = ''getText''"
| "method_name GetTagName = ''getTagName''"
| "method_name IsEnabled = ''isEnabled''"
| "method_name IsSelected = ''isSelected''"
| "method_name IsDisplayed = ''isDisplayed''"

definition undefined_receiver :: "elem_method \<Rightarrow> thrown" where
  "undefined_receiver m =
     Foreign (''TypeError: Cannot read properties of undefined (reading '' @ [CHR 0x27]
              @ method_name m @ [CHR 0x27] @ '')'')"

definition elem_invoke ::
  "('w, 'e) WebDriver \<Rightarrow> elem_method \<Rightarrow> 'e option \<Rightarrow> ('w, 'e) st
     \<Rightarrow> (thrown + jsval) \<times> ('w, 'e) st"
where
  "elem_invoke d m elem s =
     (case elem of
        None \<Rightarrow> (Inl (undefined_receiver m), s)
      | Some e \<Rightarrow>
          (case element_call d m e (world s) of
             (r, w) \<Rightarrow> (r, \<lparr>world = w, calls = calls s @ [ElementCall m e]\<rparr>)))"

subsection \<open>PageElement\<close>

record ('w, 'e) PageElement =
  driver :: "('w, 'e) WebDriver"
  locator :: locator
  config :: "'e PageElementConfiguration"

text \<open>
  The constructor: the parameter \<open>config\<close> defaults to \<open>DEFAULT_CONFIGURATION\<close> when the
  caller passes none, and the stored configuration is
  \<^verbatim>\<open>Object.assign({}, DEFAULT_CONFIGURATION, config)\<close>.
\<close>

definition new_PageElement ::
  "('w, 'e) WebDriver \<Rightarrow> locator \<Rightarrow> 'e PageElementConfiguration option \<Rightarrow> ('w, 'e) PageElement"
where
  "new_PageElement d loc cfg =
     \<lparr>driver = d, locator = loc,
      config = Object_assign (Object_assign empty_object DEFAULT_CONFIGURATION)
                 (case cfg of None \<Rightarrow> DEFAULT_CONFIGURATION | Some c \<Rightarrow> c)\<rparr>"

text \<open>
  \<open>findElement\<close>: the two loops of the source, each with its counter \<open>i\<close>. The first
  leaves \<open>elem\<close> unassigned (\<^verbatim>\<open>undefined\<close>) when its body never runs. The destructuring
  gives \<open>retires\<close> (here \<open>rt\<close>) the default 1 and \<open>timeout\<close> (here \<open>tmo\<close>) the
  default 5000; \<open>dsc\<close> is \<open>describe\<close>, so the test
  \<^verbatim>\<open>retires !== undefined\<close> of the source always holds.
\<close>

function locate_loop ::
  "('w, 'e) PageElement \<Rightarrow> int \<Rightarrow> int \<Rightarrow> string option \<Rightarrow> int \<Rightarrow> ('w, 'e) st
     \<Rightarrow> (thrown + 'e option) \<times> ('w, 'e) st"
where
  "locate_loop pe rt tmo dsc i s =
     (if i < rt then
        (case driver_wait_located (driver pe) (locator pe) tmo dsc s of
           (Inr e, s') \<Rightarrow> (Inr (Some e), s')
         | (Inl err, s') \<Rightarrow>
             if i = rt - 1 then
               (Inl (Error (''Failed to find element using '' @ locator pe
                            @ '', describe: '' @ str_of dsc)), s')
             else locate_loop pe rt tmo dsc (i + 1) s')
      else (Inr None, s))"
  by pat_completeness auto
termination
  by (relation "measure (\<lambda>(pe, rt, tmo, dsc, i, s). nat (rt - i))") auto

function visible_loop ::
  "('w, 'e) PageElement \<Rightarrow> int \<Rightarrow> int \<Rightarrow> string option \<Rightarrow> 'e option \<Rightarrow> int \<Rightarrow> ('w, 'e) st
     \<Rightarrow> (thrown + unit) \<times> ('w, 'e) st"
where
  "visible_loop pe rt tmo dsc elem i s =
     (if i \<le> rt then
        (case driver_wait_visible (driver pe) elem tmo
                (''Element is not visible: '' @ str_of dsc) s of
           (Inr _, s') \<Rightarrow> (Inr (), s')
         | (Inl error, s') \<Rightarrow>
             if i = rt - 1 then
               (Inl (Error (''Element is not visible: '' @ str_of dsc)), s')
             else visible_loop pe rt tmo dsc elem (i + 1) s')
      else (Inr (), s))"
  by pat_completeness auto
termination
  by (relation "measure (\<lambda>(pe, rt, tmo, dsc, elem, i, s). nat (rt + 1 - i))")
     auto

definition findElement ::
  "('w, 'e) PageElement \<Rightarrow> ('w, 'e) st \<Rightarrow> (thrown + 'e option) \<times> ('w, 'e) st"
where
  "findElement pe s =
     (let rt = (case get_prop (retires (config pe)) of None \<Rightarrow> 1 | Some r \<Rightarrow> r);
          tmo = (case get_prop (timeout (config pe)) of None \<Rightarrow> 5000 | Some t \<Rightarrow> t);
          dsc = get_prop (describe (config pe))
      in case locate_loop pe rt tmo dsc 0 s of
           (Inl err, s1) \<Rightarrow> (Inl err, s1)
         | (Inr elem, s1) \<Rightarrow>
             (case visible_loop pe rt tmo dsc elem 0 s1 of
                (Inl err, s2) \<Rightarrow> (Inl err, s2)
              | (Inr _, s2) \<Rightarrow> (Inr elem, s2)))"

definition getElement ::
  "('w, 'e) PageElement \<Rightarrow> ('w, 'e) st \<Rightarrow> (thrown + 'e option) \<times> ('w, 'e) st"
where
  "getElement pe s =
     (case get_prop (element (config pe)) of
        Some a \<Rightarrow> (case await a of Inl err \<Rightarrow> (Inl err, s) | Inr e \<Rightarrow> (Inr (Some e), s))
      | None \<Rightarrow> findElement pe s)"

text \<open>
  The thirteen operations. Each resolves the element outside its \<^verbatim>\<open>try\<close> block, so a
  failure of \<open>getElement\<close> reaches the caller as it is, and wraps a failure of the
  browser call into a new \<^verbatim>\<open>Error\<close>. The character \<open>CHR 0x0A\<close> is the line feed
  \<^verbatim>\<open>\n\<close> of the message templates. The operations declared \<^verbatim>\<open>Promise<void>\<close> return
  \<open>Void\<close>, the others what the driver returned.
\<close>

definition click ::
  "('w, 'e) PageElement \<Rightarrow> ('w, 'e) st \<Rightarrow> (thrown + jsval) \<times> ('w, 'e) st"
where
  "click pe s =
     (case getElement pe s of
        (Inl err, s1) \<Rightarrow> (Inl err, s1)
      | (Inr elem, s1) \<Rightarrow>
          (case elem_invoke (driver pe) Click elem s1 of
             (Inl error, s2) \<Rightarrow>
               (Inl (Error (''Failed to click on element: '' @ locator pe @ ([CHR 0x0A] @ '' '') @ toString error)), s2)
           | (Inr v, s2) \<Rightarrow> (Inr Void, s2)))"

definition contextClick ::
  "('w, 'e) PageElement \<Rightarrow> ('w, 'e) st \<Rightarrow> (thrown + jsval) \<times> ('w, 'e) st"
where
  "contextClick pe s =
     (case getElement pe s of
        (Inl err, s1) \<Rightarrow> (Inl err, s1)
      | (Inr elem, s1) \<Rightarrow>
          (case driver_actions (driver pe) ContextClick elem s1 of
             (Inl error, s2) \<Rightarrow>
               (Inl (Error (''Failed to perform right-click on element: '' @ locator pe @ ([CHR 0x0A] @ '' '') @ toString error)), s2)
           | (Inr v, s2) \<Rightarrow> (Inr Void, s2)))"

definition doubleClick ::
  "('w, 'e) PageElement \<Rightarrow> ('w, 'e) st \<Rightarrow> (thrown + jsval) \<times> ('w, 'e) st"
where
  "doubleClick pe s =
     (case getElement pe s of
        (Inl err, s1) \<Rightarrow> (Inl err, s1)
      | (Inr elem, s1) \<Rightarrow>
          (case driver_actions (driver pe) DoubleClick elem s1 of
             (Inl error, s2) \<Rightarrow>
               (Inl (Error (''Failed to perform doubleClick on element: '' @ locator pe @ ([CHR 0x0A] @ '' '') @ toString error)), s2)
           | (Inr v, s2) \<Rightarrow> (Inr Void, s2)))"

definition hover ::
  "('w, 'e) PageElement \<Rightarrow> ('w, 'e) st \<Rightarrow> (thrown + jsval) \<times> ('w, 'e) st"
where
  "hover pe s =
     (case getElement pe s of
        (Inl err, s1) \<Rightarrow> (Inl err, s1)
      | (Inr elem, s1) \<Rightarrow>
          (case driver_actions (driver pe) Move elem s1 of
             (Inl error, s2) \<Rightarrow>
               (Inl (Error (''Failed to hover over element: '' @ locator pe @ [CHR 0x0A] @ toString error)), s2)
           | (Inr v, s2) \<Rightarrow> (Inr Void, s2)))"

definition sendKeys ::
  "('w, 'e) PageElement \<Rightarrow> string \<Rightarrow> ('w, 'e) st \<Rightarrow> (thrown + jsval) \<times> ('w, 'e) st"
where
  "sendKeys pe text s =
     (case getElement pe s of
        (Inl err, s1) \<Rightarrow> (Inl err, s1)
      | (Inr elem, s1) \<Rightarrow>
          (case elem_invoke (driver pe) (SendKeys text) elem s1 of
             (Inl error, s2) \<Rightarrow>
               (Inl (Error (''Failed to send keys to element: '' @ locator pe @ [CHR 0x0A] @ toString error)), s2)
           | (Inr v, s2) \<Rightarrow> (Inr Void, s2)))"

definition clear ::
  "('w, 'e) PageElement \<Rightarrow> ('w, 'e) st \<Rightarrow> (thrown + jsval) \<times> ('w, 'e) st"
where
  "clear pe s =
     (case getElement pe s of
        (Inl err, s1) \<Rightarrow> (Inl err, s1)
      | (Inr elem, s1) \<Rightarrow>
          (case elem_invoke (driver pe) Clear elem s1 of
             (Inl error, s2) \<Rightarrow>
               (Inl (Error (''Failed to clear element: '' @ locator pe @ [CHR 0x0A] @ toString error)), s2)
           | (Inr v, s2) \<Rightarrow> (Inr Void, s2)))"

definition getAttribute ::
  "('w, 'e) PageElement \<Rightarrow> string \<Rightarrow> ('w, 'e) st \<Rightarrow> (thrown + jsval) \<times> ('w, 'e) st"
where
  "getAttribute pe attributeName s =
     (case getElement pe s of
        (Inl err, s1) \<Rightarrow> (Inl err, s1)
      | (Inr elem, s1) \<Rightarrow>
          (case elem_invoke (driver pe) (GetAttribute attributeName) elem s1 of
             (Inl error, s2) \<Rightarrow>
               (Inl (Error (''Failed to get attribute '' @ [CHR 0x22] @ attributeName @ [CHR 0x22] @ '' from element: '' @ locator pe @ [CHR 0x0A] @ toString error)), s2)
           | (Inr v, s2) \<Rightarrow> (Inr v, s2)))"

definition getText ::
  "('w, 'e) PageElement \<Rightarrow> ('w, 'e) st \<Rightarrow> (thrown + jsval) \<times> ('w, 'e) st"
where
  "getText pe s =
     (case getElement pe s of
        (Inl err, s1) \<Rightarrow> (Inl err, s1)
      | (Inr elem, s1) \<Rightarrow>
          (case elem_invoke (driver pe) GetText elem s1 of
             (Inl error, s2) \<Rightarrow>
               (Inl (Error (''Failed to get text from element: '' @ locator pe @ [CHR 0x0A] @ toString error)), s2)
           | (Inr v, s2) \<Rightarrow> (Inr v, s2)))"

definition getTagName ::
  "('w, 'e) PageElement \<Rightarrow> ('w, 'e) st \<Rightarrow> (thrown + jsval) \<times> ('w, 'e) st"
where
  "getTagName pe s =
     (case getElement pe s of
        (Inl err, s1) \<Rightarrow> (Inl err, s1)
      | (Inr elem, s1) \<Rightarrow>
          (case elem_invoke (driver pe) GetTagName elem s1 of
             (Inl error, s2) \<Rightarrow>
               (Inl (Error (''Failed to get tag name of element: '' @ locator pe @ [CHR 0x0A] @ toString error)), s2)
           | (Inr v, s2) \<Rightarrow> (Inr v, s2)))"

definition getTextarea ::
  "('w, 'e) PageElement \<Rightarrow> ('w, 'e) st \<Rightarrow> (thrown + jsval) \<times> ('w, 'e) st"
where
  "getTextarea pe s =
     (case getElement pe s of
        (Inl err, s1) \<Rightarrow> (Inl err, s1)
      | (Inr elem, s1) \<Rightarrow>
          (case elem_invoke (driver pe) (GetAttribute ''value'') elem s1 of
             (Inl error, s2) \<Rightarrow>
               (Inl (Error (''Failed to get text from textarea element: '' @ locator pe @ [CHR 0x0A] @ toString error)), s2)
           | (Inr v, s2) \<Rightarrow> (Inr v, s2)))"

definition isEnabled ::
  "('w, 'e) PageElement \<Rightarrow> ('w, 'e) st \<Rightarrow> (thrown + jsval) \<times> ('w, 'e) st"
where
  "isEnabled pe s =
     (case getElement pe s of
        (Inl err, s1) \<Rightarrow> (Inl err, s1)
      | (Inr elem, s1) \<Rightarrow>
          (case elem_invoke (driver pe) IsEnabled elem s1 of
             (Inl error, s2) \<Rightarrow>
               (Inl (Error (''Failed to check if element is enabled: '' @ locator pe @ [CHR 0x0A] @ toString error)), s2)
           | (Inr v, s2) \<Rightarrow> (Inr v, s2)))"

definition isSelected ::
  "('w, 'e) PageElement \<Rightarrow> ('w, 'e) st \<Rightarrow> (thrown + jsval) \<times> ('w, 'e) st"
where
  "isSelected pe s =
     (case getElement pe s of
        (Inl err, s1) \<Rightarrow> (Inl err, s1)
      | (Inr elem, s1) \<Rightarrow>
          (case elem_invoke (driver pe) IsSelected elem s1 of
             (Inl error, s2) \<Rightarrow>
               (Inl (Error (''Failed to check if element is selected: '' @ locator pe @ [CHR 0x0A] @ toString error)), s2)
           | (Inr v, s2) \<Rightarrow> (Inr v, s2)))"

definition isDisplayed ::
  "('w, 'e) PageElement \<Rightarrow> ('w, 'e) st \<Rightarrow> (thrown + jsval) \<times> ('w, 'e) st"
where
  "isDisplayed pe s =
     (case getElement pe s of
        (Inl err, s1) \<Rightarrow> (Inl err, s1)
      | (Inr elem, s1) \<Rightarrow>
          (case elem_invoke (driver pe) IsDisplayed elem s1 of
             (Inl error, s2) \<Rightarrow>
               (Inl (Error (''Failed to check if element is displayed: '' @ locator pe @ [CHR 0x0A] @ toString error)), s2)
           | (Inr v, s2) \<Rightarrow> (Inr v, s2)))"

subsection \<open>PageElements\<close>

record ('w, 'e) PageElements =
  pes_locator :: locator
  pes_driver :: "('w, 'e) WebDriver"

definition getElements :: "('w, 'e) PageElement \<Rightarrow> ('w, 'e) PageElements" where
  "getElements pe = \<lparr>pes_locator = locator pe, pes_driver = driver pe\<rparr>"

text \<open>
  \<open>elements\<close> returns the driver's promise from inside its \<^verbatim>\<open>try\<close> block without
  awaiting it, so a rejection of that promise settles after the block has been left and
  reaches the caller unwrapped.
\<close>

definition elements ::
  "('w, 'e) PageElements \<Rightarrow> ('w, 'e) st \<Rightarrow> (thrown + 'e list) \<times> ('w, 'e) st"
where
  "elements pes s = driver_findElements (pes_driver pes) (pes_locator pes) s"

definition length_of ::
  "('w, 'e) PageElements \<Rightarrow> ('w, 'e) st \<Rightarrow> (thrown + int) \<times> ('w, 'e) st"
where
  "length_of pes s =
     (case elements pes s of
        (Inl err, s1) \<Rightarrow> (Inl err, s1)
      | (Inr es, s1) \<Rightarrow> (Inr (int (length es)), s1))"

definition findByIndex ::
  "('w, 'e) PageElements \<Rightarrow> int \<Rightarrow> ('w, 'e) st \<Rightarrow> (thrown + 'e option) \<times> ('w, 'e) st"
where
  "findByIndex pes ix s =
     (case elements pes s of
        (Inl err, s1) \<Rightarrow> (Inl err, s1)
      | (Inr es, s1) \<Rightarrow>
          if ix \<ge> int (length es) then
            (Inl (Error (''Element not found at index '' @ num_str ix)), s1)
          else (Inr (js_index es ix), s1))"

definition first ::
  "('w, 'e) PageElements \<Rightarrow> ('w, 'e) st \<Rightarrow> (thrown + 'e option) \<times> ('w, 'e) st"
where
  "first pes s =
     (case elements pes s of
        (Inl err, s1) \<Rightarrow> (Inl err, s1)
      | (Inr es, s1) \<Rightarrow>
          if int (length es) = 0 then (Inl (Error ''No elements found''), s1)
          else (Inr (js_index es 0), s1))"

definition last_of ::
  "('w, 'e) PageElements \<Rightarrow> ('w, 'e) st \<Rightarrow> (thrown + 'e option) \<times> ('w, 'e) st"
where
  "last_of pes s =
     (case elements pes s of
        (Inl err, s1) \<Rightarrow> (Inl err, s1)
      | (Inr es, s1) \<Rightarrow>
          if int (length es) = 0 then (Inl (Error ''No elements found''), s1)
          else (Inr (js_index es (int (length es) - 1)), s1))"

text \<open>
  \<open>clickAll\<close>. The two message prefixes are Chinese text in the source, given by their
  UTF-8 bytes: \<open>CLICK_FAILED_INDEX\<close> says that clicking an element failed and ends in
  \<^verbatim>\<open>index: \<close>, \<open>CLICK_FAILED\<close> says that clicking failed and ends in a colon and a space.

  \<^verbatim>\<open>elements.map(async ...)\<close> runs the callback on every element in index order, and
  each callback runs up to its \<^verbatim>\<open>await\<close>, that is, it calls \<^verbatim>\<open>element.click()\<close>:
  \<open>click_each\<close> issues the clicks and collects the outcome of each callback's promise.
  \<^verbatim>\<open>Promise.all\<close> is rejected with the reason of the first of these promises to be
  rejected and is fulfilled when all are fulfilled; the order in which the promises settle
  is decided by the environment and is the parameter \<open>order\<close>, a list of indices.
\<close>

definition CLICK_FAILED_INDEX :: string where
  "CLICK_FAILED_INDEX =
     [CHR 0xE7, CHR 0x82, CHR 0xB9, CHR 0xE5, CHR 0x87, CHR 0xBB, CHR 0xE5, CHR 0x85,
      CHR 0x83, CHR 0xE7, CHR 0xB4, CHR 0xA0, CHR 0xE5, CHR 0xA4, CHR 0xB1, CHR 0xE8,
      CHR 0xB4, CHR 0xA5, CHR 0xEF, CHR 0xBC, CHR 0x8C, CHR 0xE7, CHR 0xB4, CHR 0xA2,
      CHR 0xE5, CHR 0xBC, CHR 0x95, CHR 0x3A, CHR 0x20]"

definition CLICK_FAILED :: string where
  "CLICK_FAILED =
     [CHR 0xE7, CHR 0x82, CHR 0xB9, CHR 0xE5, CHR 0x87, CHR 0xBB, CHR 0xE5, CHR 0x85,
      CHR 0x83, CHR 0xE7, CHR 0xB4, CHR 0xA0, CHR 0xE5, CHR 0xA4, CHR 0xB1, CHR 0xE8,
      CHR 0xB4, CHR 0xA5, CHR 0x3A, CHR 0x20]"

fun click_each ::
  "('w, 'e) WebDriver \<Rightarrow> 'e list \<Rightarrow> nat \<Rightarrow> ('w, 'e) st \<Rightarrow> (thrown + unit) list \<times> ('w, 'e) st"
where
  "click_each d [] ix s = ([], s)"
| "click_each d (e # rest) ix s =
     (case elem_invoke d Click (Some e) s of
        (r, s1) \<Rightarrow>
          (case click_each d rest (ix + 1) s1 of
             (ps, s2) \<Rightarrow>
               ((case r of
                   Inl err \<Rightarrow>
                     Inl (Error (CLICK_FAILED_INDEX @ num_str (int ix) @ '','' @ toString err))
                 | Inr _ \<Rightarrow> Inr ()) # ps, s2)))"

definition Promise_all :: "(thrown + 'a) list \<Rightarrow> nat list \<Rightarrow> thrown + 'a list" where
  "Promise_all ps order =
     (case find (\<lambda>i. i < length ps \<and> isl (ps ! i)) order of
        Some i \<Rightarrow> Inl (projl (ps ! i))
      | None \<Rightarrow> Inr (map projr ps))"

definition clickAll ::
  "('w, 'e) PageElements \<Rightarrow> nat list \<Rightarrow> ('w, 'e) st \<Rightarrow> (thrown + jsval) \<times> ('w, 'e) st"
where
  "clickAll pes order s =
     (case elements pes s of
        (Inl err, s1) \<Rightarrow> (Inl (Error (CLICK_FAILED @ toString err)), s1)
      | (Inr es, s1) \<Rightarrow>
          (case click_each (pes_driver pes) es 0 s1 of
             (ps, s2) \<Rightarrow>
               (case Promise_all ps order of
                  Inl err \<Rightarrow> (Inl (Error (CLICK_FAILED @ toString err)), s2)
                | Inr _ \<Rightarrow> (Inr Void, s2))))"

subsection \<open>Vocabulary of the statements\<close>

text \<open>
  \<open>failing_waits wait k s\<close> is the state reached from \<open>s\<close> when the next \<open>k\<close> calls of
  \<open>wait\<close> all fail, and \<open>None\<close> when one of them succeeds.
\<close>

fun failing_waits :: "('s \<Rightarrow> (thrown + 'a) \<times> 's) \<Rightarrow> nat \<Rightarrow> 's \<Rightarrow> 's option" where
  "failing_waits wait 0 s = Some s"
| "failing_waits wait (Suc k) s =
     (case wait s of (Inl _, s') \<Rightarrow> failing_waits wait k s' | (Inr _, _) \<Rightarrow> None)"

text \<open>\<open>embeds r p\<close>: the outcome \<open>r\<close> is an \<^verbatim>\<open>Error\<close> whose message contains the text \<open>p\<close>.\<close>

definition embeds :: "thrown + 'a \<Rightarrow> string \<Rightarrow> bool" where
  "embeds r p = (case r of Inl (Error m) \<Rightarrow> sublist p m | _ \<Rightarrow> False)"

fun is_wait :: "'e call \<Rightarrow> bool" where
  "is_wait (WaitLocated _ _ _) = True"
| "is_wait (WaitVisible _ _ _) = True"
| "is_wait _ = False"

text \<open>
  \<open>click_results d es w\<close>: the outcomes that the driver gives to the clicks on the
  handles \<open>es\<close>, issued in index order from the world \<open>w\<close>. It is stated on the driver
  alone, apart from \<open>clickAll\<close>.
\<close>

fun click_results :: "('w, 'e) WebDriver \<Rightarrow> 'e list \<Rightarrow> 'w \<Rightarrow> (thrown + jsval) list" where
  "click_results d [] w = []"
| "click_results d (e # es) w =
     (case element_call d Click e w of (r, w') \<Rightarrow> r # click_results d es w')"

subsection \<open>A scripted driver for concrete runs\<close>

text \<open>
  The world counts the locate waits and the visibility waits made so far. The first
  \<open>lf\<close> locate waits and the first \<open>vf\<close> visibility waits time out; the selector matches
  the handles \<open>found\<close>; a method call on a handle in \<open>bad\<close> fails, and so does every
  composed mouse action.
\<close>

definition scripted :: "nat \<Rightarrow> nat \<Rightarrow> nat list \<Rightarrow> nat list \<Rightarrow> (nat \<times> nat, nat) WebDriver" where
  "scripted lf vf found bad =
     \<lparr>wait_elementLocated =
        (\<lambda>loc t m (l, v). (if l < lf then Inl (Foreign ''TimeoutError'') else Inr 7, (l + 1, v))),
      wait_elementIsVisible =
        (\<lambda>e t m (l, v). (if v < vf then Inl (Foreign ''TimeoutError'') else Inr (), (l, v + 1))),
      findElements = (\<lambda>loc w. (Inr found, w)),
      element_call =
        (\<lambda>m e w. (if e \<in> set bad then Inl (Foreign (''stale '' @ num_str (int e)))
                   else Inr Void, w)),
      actions_perform = (\<lambda>a e w. (Inl (Foreign ''boom''), w))\<rparr>"

definition start :: "(nat \<times> nat, nat) st" where
  "start = \<lparr>world = (0, 0), calls = []\<rparr>"

text \<open>
  A page element on the scripted driver, for the selector \<open>#kw\<close> (the search box of the
  example page), with \<open>retires = n\<close> and a description.
\<close>

definition pe_with :: "nat \<Rightarrow> nat \<Rightarrow> nat list \<Rightarrow> int \<Rightarrow> (nat \<times> nat, nat) PageElement" where
  "pe_with lf vf bad n =
     new_PageElement (scripted lf vf [] bad) ''#kw''
       (Some (empty_object\<lparr>retires := Val n, describe := Val ''search box''\<rparr>))"

section \<open>Properties\<close>

subsection \<open>Construction\<close>

text \<open>
  Claim C9. For every partial configuration handed to the constructor, the stored
  configuration has the defaults \<open>retires = 1\<close>, \<open>timeout = 5000\<close>, \<open>describe\<close> = the
  generic not-found message, \<open>index = 0\<close> and no preresolved element for every property
  the caller omits, and has the caller's property wherever the caller supplies one. When
  the caller passes no configuration at all, the stored one is the default configuration.
\<close>

theorem constructor_merges_defaults:
  "config (new_PageElement d loc None) = DEFAULT_CONFIGURATION
   \<and> (let m = config (new_PageElement d loc (Some c)) in
        (retires c = Absent \<longrightarrow> retires m = Val 1) \<and>
        (timeout c = Absent \<longrightarrow> timeout m = Val 5000) \<and>
        (describe c = Absent \<longrightarrow> describe m = Val DEFAULT_DESCRIBE) \<and>
        (index c = Absent \<longrightarrow> index m = Val 0) \<and>
        (element c = Absent \<longrightarrow> element m = Undefined \<and> get_prop (element m) = None) \<and>
        (retires c \<noteq> Absent \<longrightarrow> retires m = retires c) \<and>
        (timeout c \<noteq> Absent \<longrightarrow> timeout m = timeout c) \<and>
        (describe c \<noteq> Absent \<longrightarrow> describe m = describe c) \<and>
        (index c \<noteq> Absent \<longrightarrow> index m = index c) \<and>
        (element c \<noteq> Absent \<longrightarrow> element m = element c))"
  by (simp add: new_PageElement_def Object_assign_def assign_prop_def empty_object_def
        DEFAULT_CONFIGURATION_def Let_def split: property.splits)

theorem constructor_merges_defaults_witness:
  "config (new_PageElement (scripted 0 0 [] []) ''#kw''
            (Some (empty_object\<lparr>retires := Val 3, describe := Undefined\<rparr>)))
     = \<lparr>retires = Val 3, timeout = Val 5000, describe = Undefined, index = Val 0,
        element = Undefined\<rparr>"
  using constructor_merges_defaults
          [of "scripted 0 0 [] []" "''#kw''" "empty_object\<lparr>retires := Val 3, describe := Undefined\<rparr>"]
  by (simp add: Let_def empty_object_def)

subsection \<open>The two loops of findElement\<close>

lemma calls_failing_locate:
  "failing_waits (driver_wait_located d loc t m) k s = Some s'
   \<Longrightarrow> calls s' = calls s @ replicate k (WaitLocated loc t m)"
proof (induction k arbitrary: s)
  case 0
  then show ?case by simp
next
  case (Suc k)
  then show ?case
    by (auto simp: driver_wait_located_def replicate_app_Cons_same split: prod.splits sum.splits)
qed

lemma calls_failing_visible:
  "failing_waits (driver_wait_visible d elem t m) k s = Some s'
   \<Longrightarrow> calls s' = calls s @ replicate k (WaitVisible elem t m)"
proof (induction k arbitrary: s)
  case 0
  then show ?case by simp
next
  case (Suc k)
  then show ?case
    by (auto simp: driver_wait_visible_def replicate_app_Cons_same split: prod.splits sum.splits)
qed

lemma calls_wait_visible:
  "driver_wait_visible d elem t m s = (r, s') \<Longrightarrow> calls s' = calls s @ [WaitVisible elem t m]"
  by (auto simp: driver_wait_visible_def split: prod.splits)

lemma calls_wait_located:
  "driver_wait_located d loc t m s = (r, s') \<Longrightarrow> calls s' = calls s @ [WaitLocated loc t m]"
  by (auto simp: driver_wait_located_def split: prod.splits)

lemma locate_loop_exhausted:
  "failing_waits (driver_wait_located (driver pe) (locator pe) tmo dsc) (Suc k) s = Some s'
   \<Longrightarrow> i + int (Suc k) = rt
   \<Longrightarrow> locate_loop pe rt tmo dsc i s =
        (Inl (Error (''Failed to find element using '' @ locator pe @ '', describe: ''
                     @ str_of dsc)), s')"
proof (induction k arbitrary: i s)
  case 0
  then show ?case
    by (subst locate_loop.simps) (auto split: prod.splits sum.splits)
next
  case (Suc k)
  let ?W = "driver_wait_located (driver pe) (locator pe) tmo dsc"
  from Suc.prems(1) obtain err s1 where
    w: "?W s = (Inl err, s1)" and rest: "failing_waits ?W (Suc k) s1 = Some s'"
    by (auto split: prod.splits sum.splits)
  from Suc.prems(2) have "(i + 1) + int (Suc k) = rt" by simp
  from Suc.IH [OF rest this] w Suc.prems(2) show ?case
    by (subst locate_loop.simps) simp
qed

lemma visible_loop_exhausted:
  "failing_waits (driver_wait_visible (driver pe) elem tmo
                    (''Element is not visible: '' @ str_of dsc)) (Suc k) s = Some s'
   \<Longrightarrow> i + int (Suc k) = rt
   \<Longrightarrow> visible_loop pe rt tmo dsc elem i s =
        (Inl (Error (''Element is not visible: '' @ str_of dsc)), s')"
proof (induction k arbitrary: i s)
  case 0
  then show ?case
    by (subst visible_loop.simps) (auto split: prod.splits sum.splits)
next
  case (Suc k)
  let ?W = "driver_wait_visible (driver pe) elem tmo (''Element is not visible: '' @ str_of dsc)"
  from Suc.prems(1) obtain err s1 where
    w: "?W s = (Inl err, s1)" and rest: "failing_waits ?W (Suc k) s1 = Some s'"
    by (auto split: prod.splits sum.splits)
  from Suc.prems(2) have "(i + 1) + int (Suc k) = rt" by simp
  from Suc.IH [OF rest this] w Suc.prems(2) show ?case
    by (subst visible_loop.simps) simp
qed

lemma visible_loop_succeeds:
  "failing_waits (driver_wait_visible (driver pe) elem tmo
                    (''Element is not visible: '' @ str_of dsc)) k s = Some s2
   \<Longrightarrow> driver_wait_visible (driver pe) elem tmo
          (''Element is not visible: '' @ str_of dsc) s2 = (Inr u, s3)
   \<Longrightarrow> i + int k < rt
   \<Longrightarrow> visible_loop pe rt tmo dsc elem i s = (Inr (), s3)"
proof (induction k arbitrary: i s)
  case 0
  then show ?case
    by (subst visible_loop.simps) auto
next
  case (Suc k)
  let ?W = "driver_wait_visible (driver pe) elem tmo (''Element is not visible: '' @ str_of dsc)"
  from Suc.prems(1) obtain err s1 where
    w: "?W s = (Inl err, s1)" and rest: "failing_waits ?W k s1 = Some s2"
    by (auto split: prod.splits sum.splits)
  from Suc.prems(3) have "(i + 1) + int k < rt" by simp
  from Suc.IH [OF rest Suc.prems(2) this] w Suc.prems(3) show ?case
    by (subst visible_loop.simps) simp
qed

lemma locate_loop_first_try:
  "driver_wait_located (driver pe) (locator pe) tmo dsc s = (Inr e, s1) \<Longrightarrow> 0 < rt
   \<Longrightarrow> locate_loop pe rt tmo dsc 0 s = (Inr (Some e), s1)"
  by (subst locate_loop.simps) simp

subsection \<open>Texts inside messages\<close>

lemma sublist_here: "sublist p (p @ b)"
  by (rule sublist_append_rightI)

lemma sublist_skip: "sublist p m \<Longrightarrow> sublist p (a @ m)"
  by (metis sublist_appendI sublist_order.order_trans sublist_append_leftI)

lemma embeds_Error: "sublist p m \<Longrightarrow> embeds (Inl (Error m)) p"
  by (simp add: embeds_def)

lemmas run_defs =
  pe_with_def new_PageElement_def Object_assign_def assign_prop_def empty_object_def
  DEFAULT_CONFIGURATION_def scripted_def start_def driver_wait_located_def
  driver_wait_visible_def elem_invoke_def driver_actions_def

subsection \<open>Element resolution\<close>

text \<open>
  Claim C1. For every configuration with \<open>retires = n \<ge> 1\<close> and no preresolved element:
  if the next \<open>n\<close> locate waits all fail, element resolution makes exactly these \<open>n\<close>
  locate waits and no other call to the driver, retrying without a trace after each of
  the first \<open>n - 1\<close> failures, and then fails with the error "Failed to find element
  using \<open>locator\<close>, describe: \<open>describe\<close>", which contains the selector and the
  configured description.
\<close>

theorem getElement_locate_exhausted:
  assumes "1 \<le> n"
    and "get_prop (retires (config pe)) = Some n"
    and "get_prop (element (config pe)) = None"
    and "tmo = (case get_prop (timeout (config pe)) of None \<Rightarrow> 5000 | Some t \<Rightarrow> t)"
    and "dsc = get_prop (describe (config pe))"
    and "failing_waits (driver_wait_located (driver pe) (locator pe) tmo dsc) (nat n) s = Some s'"
  shows "getElement pe s
           = (Inl (Error (''Failed to find element using '' @ locator pe @ '', describe: ''
                          @ str_of dsc)), s')
       \<and> calls s' = calls s @ replicate (nat n) (WaitLocated (locator pe) tmo dsc)
       \<and> embeds (fst (getElement pe s)) (locator pe)
       \<and> embeds (fst (getElement pe s)) (str_of dsc)"
proof -
  from assms(1) obtain k where k: "nat n = Suc k"
    by (cases "nat n") auto
  with assms(1) have "0 + int (Suc k) = n" by linarith
  from locate_loop_exhausted [OF assms(6) [unfolded k] this]
  have res: "getElement pe s
           = (Inl (Error (''Failed to find element using '' @ locator pe @ '', describe: ''
                          @ str_of dsc)), s')"
    using assms(2-5) by (simp add: getElement_def findElement_def)
  have tr: "calls s' = calls s @ replicate (nat n) (WaitLocated (locator pe) tmo dsc)"
    using assms(6) by (rule calls_failing_locate)
  have e1: "embeds (fst (getElement pe s)) (locator pe)"
    unfolding res fst_conv by (intro embeds_Error sublist_skip sublist_here)
  have e2: "embeds (fst (getElement pe s)) (str_of dsc)"
    unfolding res fst_conv by (intro embeds_Error sublist_skip sublist_order.order_refl)
  from res tr e1 e2 show ?thesis by blast
qed

theorem getElement_locate_exhausted_witness:
  "getElement (pe_with 9 0 [] 3) start
     = (Inl (Error ''Failed to find element using #kw, describe: search box''),
        \<lparr>world = (3, 0),
         calls = [WaitLocated ''#kw'' 5000 (Some ''search box''),
                  WaitLocated ''#kw'' 5000 (Some ''search box''),
                  WaitLocated ''#kw'' 5000 (Some ''search box'')]\<rparr>)"
  using getElement_locate_exhausted [of 3 "pe_with 9 0 [] 3" 5000 "Some ''search box''" start
       "\<lparr>world = (3, 0),
         calls = [WaitLocated ''#kw'' 5000 (Some ''search box''),
                  WaitLocated ''#kw'' 5000 (Some ''search box''),
                  WaitLocated ''#kw'' 5000 (Some ''search box'')]\<rparr>"]
  by (simp add: run_defs eval_nat_numeral)

text \<open>
  Claim C2, as the spec states it, fails: with \<open>retires = 1\<close>, a located element and
  visibility waits that keep failing, \<open>findElement\<close> fails after one visibility wait, not
  after two, and its message does not contain the selector \<open>#kw\<close>.
\<close>

theorem findElement_visibility_counterexample:
  "findElement (pe_with 0 9 [] 1) start
     = (Inl (Error ''Element is not visible: search box''),
        \<lparr>world = (1, 1),
         calls = [WaitLocated ''#kw'' 5000 (Some ''search box''),
                  WaitVisible (Some 7) 5000 ''Element is not visible: search box'']\<rparr>)
   \<and> \<not> sublist ''#kw'' ''Element is not visible: search box''"
  by code_simp

text \<open>
  Claim C2, amended. For \<open>retires = n \<ge> 1\<close>, once the locate phase has succeeded with
  \<open>elem\<close>: if the first \<open>k < n\<close> visibility waits fail and the next one succeeds,
  \<open>findElement\<close> returns \<open>elem\<close> at once, having made \<open>k + 1\<close> visibility waits; if the
  first \<open>n\<close> visibility waits fail, it fails after exactly these \<open>n\<close> waits with the
  error "Element is not visible: \<open>describe\<close>", which contains the configured description.
  Every visibility wait is given the configured timeout.
\<close>

theorem findElement_visibility_phase:
  assumes "1 \<le> n"
    and "get_prop (retires (config pe)) = Some n"
    and "tmo = (case get_prop (timeout (config pe)) of None \<Rightarrow> 5000 | Some t \<Rightarrow> t)"
    and "dsc = get_prop (describe (config pe))"
    and "msg = ''Element is not visible: '' @ str_of dsc"
    and "locate_loop pe n tmo dsc 0 s = (Inr elem, s1)"
  shows "(int k < n
          \<and> failing_waits (driver_wait_visible (driver pe) elem tmo msg) k s1 = Some s2
          \<and> driver_wait_visible (driver pe) elem tmo msg s2 = (Inr u, s3)
          \<longrightarrow> findElement pe s = (Inr elem, s3)
              \<and> calls s3 = calls s1 @ replicate (Suc k) (WaitVisible elem tmo msg))
       \<and> (failing_waits (driver_wait_visible (driver pe) elem tmo msg) (nat n) s1 = Some s4
          \<longrightarrow> findElement pe s = (Inl (Error msg), s4)
              \<and> calls s4 = calls s1 @ replicate (nat n) (WaitVisible elem tmo msg)
              \<and> embeds (fst (findElement pe s)) (str_of dsc))"
proof (intro conjI impI)
  assume h: "int k < n
          \<and> failing_waits (driver_wait_visible (driver pe) elem tmo msg) k s1 = Some s2
          \<and> driver_wait_visible (driver pe) elem tmo msg s2 = (Inr u, s3)"
  then have "visible_loop pe n tmo dsc elem 0 s1 = (Inr (), s3)"
    using visible_loop_succeeds [of pe elem tmo dsc k s1 s2 u s3 0 n] assms(5) by simp
  then show "findElement pe s = (Inr elem, s3)"
    using assms(2-4,6) by (simp add: findElement_def)
  from h have "calls s2 = calls s1 @ replicate k (WaitVisible elem tmo msg)"
    by (intro calls_failing_visible [of "driver pe"]) simp
  moreover from h have "calls s3 = calls s2 @ [WaitVisible elem tmo msg]"
    by (intro calls_wait_visible [of "driver pe" _ _ _ _ "Inr u"]) simp
  ultimately show "calls s3 = calls s1 @ replicate (Suc k) (WaitVisible elem tmo msg)"
    by (simp add: replicate_append_same)
next
  assume h: "failing_waits (driver_wait_visible (driver pe) elem tmo msg) (nat n) s1 = Some s4"
  from assms(1) obtain j where j: "nat n = Suc j"
    by (cases "nat n") auto
  with assms(1) have "0 + int (Suc j) = n" by linarith
  from visible_loop_exhausted [OF h [unfolded j assms(5)] this]
  have "visible_loop pe n tmo dsc elem 0 s1 = (Inl (Error msg), s4)"
    using assms(5) by simp
  then show res: "findElement pe s = (Inl (Error msg), s4)"
    using assms(2-4,6) by (simp add: findElement_def)
  from h show "calls s4 = calls s1 @ replicate (nat n) (WaitVisible elem tmo msg)"
    by (rule calls_failing_visible)
  show "embeds (fst (findElement pe s)) (str_of dsc)"
    unfolding res fst_conv assms(5) by (intro embeds_Error sublist_skip sublist_order.order_refl)
qed

theorem findElement_visibility_phase_witness:
  "findElement (pe_with 0 1 [] 3) start
     = (Inr (Some 7),
        \<lparr>world = (1, 2),
         calls = [WaitLocated ''#kw'' 5000 (Some ''search box''),
                  WaitVisible (Some 7) 5000 ''Element is not visible: search box'',
                  WaitVisible (Some 7) 5000 ''Element is not visible: search box'']\<rparr>)
   \<and> findElement (pe_with 0 9 [] 3) start
     = (Inl (Error ''Element is not visible: search box''),
        \<lparr>world = (1, 3),
         calls = [WaitLocated ''#kw'' 5000 (Some ''search box''),
                  WaitVisible (Some 7) 5000 ''Element is not visible: search box'',
                  WaitVisible (Some 7) 5000 ''Element is not visible: search box'',
                  WaitVisible (Some 7) 5000 ''Element is not visible: search box'']\<rparr>)"
proof -
  let ?L = "WaitLocated ''#kw'' 5000 (Some ''search box'')"
  let ?V = "WaitVisible (Some 7) 5000 ''Element is not visible: search box''"
  let ?s1 = "\<lparr>world = (1, 0), calls = [?L]\<rparr>"
  let ?s2 = "\<lparr>world = (1, 1), calls = [?L, ?V]\<rparr>"
  let ?s3 = "\<lparr>world = (1, 2), calls = [?L, ?V, ?V]\<rparr>"
  let ?s4 = "\<lparr>world = (1, 3), calls = [?L, ?V, ?V, ?V]\<rparr>"
  have "findElement (pe_with 0 1 [] 3) start = (Inr (Some 7), ?s3)"
    using findElement_visibility_phase [of 3 "pe_with 0 1 [] 3" 5000 "Some ''search box''"
            "''Element is not visible: search box''" start "Some 7" ?s1 1 ?s2 "()" ?s3 ?s4,
            THEN conjunct1]
    by (simp add: run_defs locate_loop.simps [of _ _ _ _ 0])
  moreover have "findElement (pe_with 0 9 [] 3) start
                   = (Inl (Error ''Element is not visible: search box''), ?s4)"
    using findElement_visibility_phase [of 3 "pe_with 0 9 [] 3" 5000 "Some ''search box''"
            "''Element is not visible: search box''" start "Some 7" ?s1 1 ?s2 "()" ?s3 ?s4,
            THEN conjunct2]
    by (simp add: run_defs locate_loop.simps [of _ _ _ _ 0] eval_nat_numeral)
  ultimately show ?thesis by simp
qed

text \<open>
  Claim C5. With \<open>retires = 3\<close>, an element that the first locate wait finds, a first
  visibility wait that fails and a second that succeeds, \<open>click\<close> succeeds when the
  browser click does, and the calls made are one locate wait, exactly two visibility
  waits and the click.
\<close>

theorem click_visible_on_second_check:
  assumes "get_prop (retires (config pe)) = Some 3"
    and "get_prop (element (config pe)) = None"
    and "tmo = (case get_prop (timeout (config pe)) of None \<Rightarrow> 5000 | Some t \<Rightarrow> t)"
    and "dsc = get_prop (describe (config pe))"
    and "msg = ''Element is not visible: '' @ str_of dsc"
    and "driver_wait_located (driver pe) (locator pe) tmo dsc s = (Inr e, s1)"
    and "driver_wait_visible (driver pe) (Some e) tmo msg s1 = (Inl err, s2)"
    and "driver_wait_visible (driver pe) (Some e) tmo msg s2 = (Inr u, s3)"
    and "elem_invoke (driver pe) Click (Some e) s3 = (Inr v, s4)"
  shows "click pe s = (Inr Void, s4)
       \<and> calls s4 = calls s @ [WaitLocated (locator pe) tmo dsc, WaitVisible (Some e) tmo msg,
                               WaitVisible (Some e) tmo msg, ElementCall Click e]"
proof -
  have loc: "locate_loop pe 3 tmo dsc 0 s = (Inr (Some e), s1)"
    using assms(6) by (rule locate_loop_first_try) simp
  have "failing_waits (driver_wait_visible (driver pe) (Some e) tmo msg) 1 s1 = Some s2"
    using assms(7) by simp
  then have "visible_loop pe 3 tmo dsc (Some e) 0 s1 = (Inr (), s3)"
    using visible_loop_succeeds [of pe "Some e" tmo dsc 1 s1 s2 u s3 0 3] assms(5,8) by simp
  with loc have "getElement pe s = (Inr (Some e), s3)"
    using assms(1-4) by (simp add: getElement_def findElement_def)
  then have res: "click pe s = (Inr Void, s4)"
    using assms(9) by (simp add: click_def)
  have "calls s1 = calls s @ [WaitLocated (locator pe) tmo dsc]"
    using assms(6) by (rule calls_wait_located)
  moreover have "calls s2 = calls s1 @ [WaitVisible (Some e) tmo msg]"
    using assms(7) by (rule calls_wait_visible)
  moreover have "calls s3 = calls s2 @ [WaitVisible (Some e) tmo msg]"
    using assms(8) by (rule calls_wait_visible)
  moreover have "calls s4 = calls s3 @ [ElementCall Click e]"
    using assms(9) by (auto simp: elem_invoke_def split: prod.splits)
  ultimately show ?thesis using res by simp
qed

theorem click_visible_on_second_check_witness:
  "click (pe_with 0 1 [] 3) start
     = (Inr Void,
        \<lparr>world = (1, 2),
         calls = [WaitLocated ''#kw'' 5000 (Some ''search box''),
                  WaitVisible (Some 7) 5000 ''Element is not visible: search box'',
                  WaitVisible (Some 7) 5000 ''Element is not visible: search box'',
                  ElementCall Click 7]\<rparr>)"
  using click_visible_on_second_check [of "pe_with 0 1 [] 3" 5000 "Some ''search box''"
          "''Element is not visible: search box''" start 7
          "\<lparr>world = (1, 0), calls = [WaitLocated ''#kw'' 5000 (Some ''search box'')]\<rparr>"
          "Foreign ''TimeoutError''"
          "\<lparr>world = (1, 1), calls = [WaitLocated ''#kw'' 5000 (Some ''search box''),
                  WaitVisible (Some 7) 5000 ''Element is not visible: search box'']\<rparr>"
          "()"
          "\<lparr>world = (1, 2), calls = [WaitLocated ''#kw'' 5000 (Some ''search box''),
                  WaitVisible (Some 7) 5000 ''Element is not visible: search box'',
                  WaitVisible (Some 7) 5000 ''Element is not visible: search box'']\<rparr>"
          Void
          "\<lparr>world = (1, 2), calls = [WaitLocated ''#kw'' 5000 (Some ''search box''),
                  WaitVisible (Some 7) 5000 ''Element is not visible: search box'',
                  WaitVisible (Some 7) 5000 ''Element is not visible: search box'',
                  ElementCall Click 7]\<rparr>"]
  by (simp add: run_defs)

subsection \<open>The operations\<close>

text \<open>The message of each operation when its browser call fails on the resolved element.\<close>

lemma click_fails:
  "getElement pe s = (Inr elem, s1) \<Longrightarrow> elem_invoke (driver pe) Click elem s1 = (Inl err, s2)
   \<Longrightarrow> click pe s
         = (Inl (Error (''Failed to click on element: '' @ locator pe @ ([CHR 0x0A] @ '' '')
                        @ toString err)), s2)"
  by (simp add: click_def)

lemma contextClick_fails:
  "getElement pe s = (Inr elem, s1) \<Longrightarrow> driver_actions (driver pe) ContextClick elem s1 = (Inl err, s2)
   \<Longrightarrow> contextClick pe s
         = (Inl (Error (''Failed to perform right-click on element: '' @ locator pe @ ([CHR 0x0A] @ '' '')
                        @ toString err)), s2)"
  by (simp add: contextClick_def)

lemma doubleClick_fails:
  "getElement pe s = (Inr elem, s1) \<Longrightarrow> driver_actions (driver pe) DoubleClick elem s1 = (Inl err, s2)
   \<Longrightarrow> doubleClick pe s
         = (Inl (Error (''Failed to perform doubleClick on element: '' @ locator pe @ ([CHR 0x0A] @ '' '')
                        @ toString err)), s2)"
  by (simp add: doubleClick_def)

lemma hover_fails:
  "getElement pe s = (Inr elem, s1) \<Longrightarrow> driver_actions (driver pe) Move elem s1 = (Inl err, s2)
   \<Longrightarrow> hover pe s
         = (Inl (Error (''Failed to hover over element: '' @ locator pe @ [CHR 0x0A]
                        @ toString err)), s2)"
  by (simp add: hover_def)

lemma sendKeys_fails:
  "getElement pe s = (Inr elem, s1) \<Longrightarrow> elem_invoke (driver pe) (SendKeys text) elem s1 = (Inl err, s2)
   \<Longrightarrow> sendKeys pe text s
         = (Inl (Error (''Failed to send keys to element: '' @ locator pe @ [CHR 0x0A]
                        @ toString err)), s2)"
  by (simp add: sendKeys_def)

lemma clear_fails:
  "getElement pe s = (Inr elem, s1) \<Longrightarrow> elem_invoke (driver pe) Clear elem s1 = (Inl err, s2)
   \<Longrightarrow> clear pe s
         = (Inl (Error (''Failed to clear element: '' @ locator pe @ [CHR 0x0A]
                        @ toString err)), s2)"
  by (simp add: clear_def)

lemma getAttribute_fails:
  "getElement pe s = (Inr elem, s1) \<Longrightarrow> elem_invoke (driver pe) (GetAttribute attributeName) elem s1 = (Inl err, s2)
   \<Longrightarrow> getAttribute pe attributeName s
         = (Inl (Error ((''Failed to get attribute '' @ [CHR 0x22] @ attributeName @ [CHR 0x22]
                         @ '' from element: '') @ locator pe @ [CHR 0x0A]
                        @ toString err)), s2)"
  by (simp add: getAttribute_def)

lemma getText_fails:
  "getElement pe s = (Inr elem, s1) \<Longrightarrow> elem_invoke (driver pe) GetText elem s1 = (Inl err, s2)
   \<Longrightarrow> getText pe s
         = (Inl (Error (''Failed to get text from element: '' @ locator pe @ [CHR 0x0A]
                        @ toString err)), s2)"
  by (simp add: getText_def)

lemma getTagName_fails:
  "getElement pe s = (Inr elem, s1) \<Longrightarrow> elem_invoke (driver pe) GetTagName elem s1 = (Inl err, s2)
   \<Longrightarrow> getTagName pe s
         = (Inl (Error (''Failed to get tag name of element: '' @ locator pe @ [CHR 0x0A]
                        @ toString err)), s2)"
  by (simp add: getTagName_def)

lemma getTextarea_fails:
  "getElement pe s = (Inr elem, s1) \<Longrightarrow> elem_invoke (driver pe) (GetAttribute ''value'') elem s1 = (Inl err, s2)
   \<Longrightarrow> getTextarea pe s
         = (Inl (Error (''Failed to get text from textarea element: '' @ locator pe @ [CHR 0x0A]
                        @ toString err)), s2)"
  by (simp add: getTextarea_def)

lemma isEnabled_fails:
  "getElement pe s = (Inr elem, s1) \<Longrightarrow> elem_invoke (driver pe) IsEnabled elem s1 = (Inl err, s2)
   \<Longrightarrow> isEnabled pe s
         = (Inl (Error (''Failed to check if element is enabled: '' @ locator pe @ [CHR 0x0A]
                        @ toString err)), s2)"
  by (simp add: isEnabled_def)

lemma isSelected_fails:
  "getElement pe s = (Inr elem, s1) \<Longrightarrow> elem_invoke (driver pe) IsSelected elem s1 = (Inl err, s2)
   \<Longrightarrow> isSelected pe s
         = (Inl (Error (''Failed to check if element is selected: '' @ locator pe @ [CHR 0x0A]
                        @ toString err)), s2)"
  by (simp add: isSelected_def)

lemma isDisplayed_fails:
  "getElement pe s = (Inr elem, s1) \<Longrightarrow> elem_invoke (driver pe) IsDisplayed elem s1 = (Inl err, s2)
   \<Longrightarrow> isDisplayed pe s
         = (Inl (Error (''Failed to check if element is displayed: '' @ locator pe @ [CHR 0x0A]
                        @ toString err)), s2)"
  by (simp add: isDisplayed_def)

lemmas operation_fails =
  click_fails contextClick_fails doubleClick_fails hover_fails sendKeys_fails clear_fails
  getAttribute_fails getText_fails getTagName_fails getTextarea_fails isEnabled_fails
  isSelected_fails isDisplayed_fails

lemma message_state: "r = (Inl (Error m), s2) \<Longrightarrow> snd r = s2"
  by simp

lemma message_selector: "r = (Inl (Error (pre @ loc @ rest)), s2) \<Longrightarrow> embeds (fst r) loc"
  by (simp add: embeds_def sublist_appendI)

lemma message_detail:
  "r = (Inl (Error (pre @ loc @ sep @ detail)), s2) \<Longrightarrow> embeds (fst r) detail"
  by (simp add: embeds_def sublist_skip)

lemma getElement_preresolved:
  "get_prop (element (config pe)) = Some a
   \<Longrightarrow> getElement pe s = (case await a of Inl err \<Rightarrow> Inl err | Inr e \<Rightarrow> Inr (Some e), s)"
  by (simp add: getElement_def split: sum.splits)

lemma elem_invoke_no_wait:
  "filter is_wait (calls (snd (elem_invoke d m elem s))) = filter is_wait (calls s)"
  by (simp add: elem_invoke_def split: option.splits prod.splits)

lemma driver_actions_no_wait:
  "filter is_wait (calls (snd (driver_actions d a elem s))) = filter is_wait (calls s)"
  by (simp add: driver_actions_def split: prod.splits)

lemma operation_no_wait:
  assumes "get_prop (element (config pe)) = Some a"
    and "\<And>elem s1. filter is_wait (calls (snd (call elem s1))) = filter is_wait (calls s1)"
  shows "filter is_wait
           (calls (snd (case getElement pe s of
                          (Inl err, s1) \<Rightarrow> (Inl err, s1)
                        | (Inr elem, s1) \<Rightarrow>
                            (case call elem s1 of
                               (Inl error, s2) \<Rightarrow> (Inl (f error), s2)
                             | (Inr v, s2) \<Rightarrow> (Inr (g v), s2)))))
         = filter is_wait (calls s)"
proof (cases "await a")
  case (Inl err)
  then show ?thesis
    using assms(1) by (simp add: getElement_preresolved)
next
  case (Inr e)
  obtain r s2 where c: "call (Some e) s = (r, s2)"
    by (cases "call (Some e) s")
  with assms(2) [of "Some e" s] have "filter is_wait (calls s2) = filter is_wait (calls s)"
    by simp
  with c Inr show ?thesis
    using assms(1) by (cases r) (simp_all add: getElement_preresolved)
qed

lemma click_no_wait:
  "get_prop (element (config pe)) = Some a
   \<Longrightarrow> filter is_wait (calls (snd (click pe s))) = filter is_wait (calls s)"
  unfolding click_def
  by (rule operation_no_wait) (simp_all add: elem_invoke_no_wait driver_actions_no_wait)

lemma contextClick_no_wait:
  "get_prop (element (config pe)) = Some a
   \<Longrightarrow> filter is_wait (calls (snd (contextClick pe s))) = filter is_wait (calls s)"
  unfolding contextClick_def
  by (rule operation_no_wait) (simp_all add: elem_invoke_no_wait driver_actions_no_wait)

lemma doubleClick_no_wait:
  "get_prop (element (config pe)) = Some a
   \<Longrightarrow> filter is_wait (calls (snd (doubleClick pe s))) = filter is_wait (calls s)"
  unfolding doubleClick_def
  by (rule operation_no_wait) (simp_all add: elem_invoke_no_wait driver_actions_no_wait)

lemma hover_no_wait:
  "get_prop (element (config pe)) = Some a
   \<Longrightarrow> filter is_wait (calls (snd (hover pe s))) = filter is_wait (calls s)"
  unfolding hover_def
  by (rule operation_no_wait) (simp_all add: elem_invoke_no_wait driver_actions_no_wait)

lemma sendKeys_no_wait:
  "get_prop (element (config pe)) = Some a
   \<Longrightarrow> filter is_wait (calls (snd (sendKeys pe text s))) = filter is_wait (calls s)"
  unfolding sendKeys_def
  by (rule operation_no_wait) (simp_all add: elem_invoke_no_wait driver_actions_no_wait)

lemma clear_no_wait:
  "get_prop (element (config pe)) = Some a
   \<Longrightarrow> filter is_wait (calls (snd (clear pe s))) = filter is_wait (calls s)"
  unfolding clear_def
  by (rule operation_no_wait) (simp_all add: elem_invoke_no_wait driver_actions_no_wait)

lemma getAttribute_no_wait:
  "get_prop (element (config pe)) = Some a
   \<Longrightarrow> filter is_wait (calls (snd (getAttribute pe attributeName s))) = filter is_wait (calls s)"
  unfolding getAttribute_def
  by (rule operation_no_wait) (simp_all add: elem_invoke_no_wait driver_actions_no_wait)

lemma getText_no_wait:
  "get_prop (element (config pe)) = Some a
   \<Longrightarrow> filter is_wait (calls (snd (getText pe s))) = filter is_wait (calls s)"
  unfolding getText_def
  by (rule operation_no_wait) (simp_all add: elem_invoke_no_wait driver_actions_no_wait)

lemma getTagName_no_wait:
  "get_prop (element (config pe)) = Some a
   \<Longrightarrow> filter is_wait (calls (snd (getTagName pe s))) = filter is_wait (calls s)"
  unfolding getTagName_def
  by (rule operation_no_wait) (simp_all add: elem_invoke_no_wait driver_actions_no_wait)

lemma getTextarea_no_wait:
  "get_prop (element (config pe)) = Some a
   \<Longrightarrow> filter is_wait (calls (snd (getTextarea pe s))) = filter is_wait (calls s)"
  unfolding getTextarea_def
  by (rule operation_no_wait) (simp_all add: elem_invoke_no_wait driver_actions_no_wait)

lemma isEnabled_no_wait:
  "get_prop (element (config pe)) = Some a
   \<Longrightarrow> filter is_wait (calls (snd (isEnabled pe s))) = filter is_wait (calls s)"
  unfolding isEnabled_def
  by (rule operation_no_wait) (simp_all add: elem_invoke_no_wait driver_actions_no_wait)

lemma isSelected_no_wait:
  "get_prop (element (config pe)) = Some a
   \<Longrightarrow> filter is_wait (calls (snd (isSelected pe s))) = filter is_wait (calls s)"
  unfolding isSelected_def
  by (rule operation_no_wait) (simp_all add: elem_invoke_no_wait driver_actions_no_wait)

lemma isDisplayed_no_wait:
  "get_prop (element (config pe)) = Some a
   \<Longrightarrow> filter is_wait (calls (snd (isDisplayed pe s))) = filter is_wait (calls s)"
  unfolding isDisplayed_def
  by (rule operation_no_wait) (simp_all add: elem_invoke_no_wait driver_actions_no_wait)

text \<open>
  Claim C4. When the configuration holds a preresolved element, element resolution awaits
  it and returns it (or fails with its rejection) without any call to the driver, and
  none of the thirteen operations makes a locate wait or a visibility wait.
\<close>

theorem preresolved_element_skips_waits:
  assumes "get_prop (element (config pe)) = Some a"
  shows "snd (getElement pe s) = s
       \<and> (await a = Inr e \<longrightarrow> fst (getElement pe s) = Inr (Some e))
       \<and> (await a = Inl t \<longrightarrow> fst (getElement pe s) = Inl t)
       \<and> filter is_wait (calls (snd (click pe s))) = filter is_wait (calls s)
       \<and> filter is_wait (calls (snd (contextClick pe s))) = filter is_wait (calls s)
       \<and> filter is_wait (calls (snd (doubleClick pe s))) = filter is_wait (calls s)
       \<and> filter is_wait (calls (snd (hover pe s))) = filter is_wait (calls s)
       \<and> filter is_wait (calls (snd (sendKeys pe text s))) = filter is_wait (calls s)
       \<and> filter is_wait (calls (snd (clear pe s))) = filter is_wait (calls s)
       \<and> filter is_wait (calls (snd (getAttribute pe attributeName s))) = filter is_wait (calls s)
       \<and> filter is_wait (calls (snd (getText pe s))) = filter is_wait (calls s)
       \<and> filter is_wait (calls (snd (getTagName pe s))) = filter is_wait (calls s)
       \<and> filter is_wait (calls (snd (getTextarea pe s))) = filter is_wait (calls s)
       \<and> filter is_wait (calls (snd (isEnabled pe s))) = filter is_wait (calls s)
       \<and> filter is_wait (calls (snd (isSelected pe s))) = filter is_wait (calls s)
       \<and> filter is_wait (calls (snd (isDisplayed pe s))) = filter is_wait (calls s)"
proof -
  have "snd (getElement pe s) = s"
    using assms by (simp add: getElement_preresolved)
  moreover have "await a = Inr e \<longrightarrow> fst (getElement pe s) = Inr (Some e)"
    using assms by (simp add: getElement_preresolved)
  moreover have "await a = Inl t \<longrightarrow> fst (getElement pe s) = Inl t"
    using assms by (simp add: getElement_preresolved)
  ultimately show ?thesis
    using assms
    by (simp only: click_no_wait contextClick_no_wait doubleClick_no_wait hover_no_wait
          sendKeys_no_wait clear_no_wait getAttribute_no_wait getText_no_wait
          getTagName_no_wait getTextarea_no_wait isEnabled_no_wait isSelected_no_wait
          isDisplayed_no_wait simp_thms)
qed

theorem preresolved_element_skips_waits_witness:
  "getElement (new_PageElement (scripted 9 9 [] []) ''#kw''
                 (Some (empty_object\<lparr>element := Val (Fulfilled 5)\<rparr>))) start
     = (Inr (Some 5), start)
   \<and> click (new_PageElement (scripted 9 9 [] []) ''#kw''
               (Some (empty_object\<lparr>element := Val (Fulfilled 5)\<rparr>))) start
     = (Inr Void, \<lparr>world = (0, 0), calls = [ElementCall Click 5]\<rparr>)"
  using preresolved_element_skips_waits
          [of "new_PageElement (scripted 9 9 [] []) ''#kw''
                 (Some (empty_object\<lparr>element := Val (Fulfilled 5)\<rparr>))" "Fulfilled 5" start 5]
  by (simp add: run_defs getElement_def click_def split: prod.splits)

text \<open>
  Claim C6, as the spec states it, fails: when the browser click on the resolved element
  fails, the error of \<open>click\<close> contains the selector and the failure detail, but not
  the configured description \<open>search box\<close>.
\<close>

theorem click_error_counterexample:
  "click (pe_with 0 0 [7] 1) start
     = (Inl (Error (''Failed to click on element: #kw'' @ [CHR 0x0A] @ '' stale 7'')),
        \<lparr>world = (1, 1),
         calls = [WaitLocated ''#kw'' 5000 (Some ''search box''),
                  WaitVisible (Some 7) 5000 ''Element is not visible: search box'',
                  ElementCall Click 7]\<rparr>)
   \<and> \<not> embeds (fst (click (pe_with 0 0 [7] 1) start)) ''search box''"
  by code_simp

text \<open>
  Claim C6, amended. For each of the thirteen operations, when the browser call on the
  resolved element fails, the operation fails with an error whose message contains the
  selector and the rendering of the underlying failure. (The configured description is
  not part of the message.)
\<close>

theorem operation_error_embeds:
  assumes "getElement pe s = (Inr elem, s1)"
  shows "(elem_invoke (driver pe) Click elem s1 = (Inl err, s2)
          \<longrightarrow> snd (click pe s) = s2 \<and> embeds (fst (click pe s)) (locator pe)
              \<and> embeds (fst (click pe s)) (toString err))
       \<and> (driver_actions (driver pe) ContextClick elem s1 = (Inl err, s2)
          \<longrightarrow> snd (contextClick pe s) = s2 \<and> embeds (fst (contextClick pe s)) (locator pe)
              \<and> embeds (fst (contextClick pe s)) (toString err))
       \<and> (driver_actions (driver pe) DoubleClick elem s1 = (Inl err, s2)
          \<longrightarrow> snd (doubleClick pe s) = s2 \<and> embeds (fst (doubleClick pe s)) (locator pe)
              \<and> embeds (fst (doubleClick pe s)) (toString err))
       \<and> (driver_actions (driver pe) Move elem s1 = (Inl err, s2)
          \<longrightarrow> snd (hover pe s) = s2 \<and> embeds (fst (hover pe s)) (locator pe)
              \<and> embeds (fst (hover pe s)) (toString err))
       \<and> (elem_invoke (driver pe) (SendKeys text) elem s1 = (Inl err, s2)
          \<longrightarrow> snd (sendKeys pe text s) = s2 \<and> embeds (fst (sendKeys pe text s)) (locator pe)
              \<and> embeds (fst (sendKeys pe text s)) (toString err))
       \<and> (elem_invoke (driver pe) Clear elem s1 = (Inl err, s2)
          \<longrightarrow> snd (clear pe s) = s2 \<and> embeds (fst (clear pe s)) (locator pe)
              \<and> embeds (fst (clear pe s)) (toString err))
       \<and> (elem_invoke (driver pe) (GetAttribute attributeName) elem s1 = (Inl err, s2)
          \<longrightarrow> snd (getAttribute pe attributeName s) = s2 \<and> embeds (fst (getAttribute pe attributeName s)) (locator pe)
              \<and> embeds (fst (getAttribute pe attributeName s)) (toString err))
       \<and> (elem_invoke (driver pe) GetText elem s1 = (Inl err, s2)
          \<longrightarrow> snd (getText pe s) = s2 \<and> embeds (fst (getText pe s)) (locator pe)
              \<and> embeds (fst (getText pe s)) (toString err))
       \<and> (elem_invoke (driver pe) GetTagName elem s1 = (Inl err, s2)
          \<longrightarrow> snd (getTagName pe s) = s2 \<and> embeds (fst (getTagName pe s)) (locator pe)
              \<and> embeds (fst (getTagName pe s)) (toString err))
       \<and> (elem_invoke (driver pe) (GetAttribute ''value'') elem s1 = (Inl err, s2)
          \<longrightarrow> snd (getTextarea pe s) = s2 \<and> embeds (fst (getTextarea pe s)) (locator pe)
              \<and> embeds (fst (getTextarea pe s)) (toString err))
       \<and> (elem_invoke (driver pe) IsEnabled elem s1 = (Inl err, s2)
          \<longrightarrow> snd (isEnabled pe s) = s2 \<and> embeds (fst (isEnabled pe s)) (locator pe)
              \<and> embeds (fst (isEnabled pe s)) (toString err))
       \<and> (elem_invoke (driver pe) IsSelected elem s1 = (Inl err, s2)
          \<longrightarrow> snd (isSelected pe s) = s2 \<and> embeds (fst (isSelected pe s)) (locator pe)
              \<and> embeds (fst (isSelected pe s)) (toString err))
       \<and> (elem_invoke (driver pe) IsDisplayed elem s1 = (Inl err, s2)
          \<longrightarrow> snd (isDisplayed pe s) = s2 \<and> embeds (fst (isDisplayed pe s)) (locator pe)
              \<and> embeds (fst (isDisplayed pe s)) (toString err))"
  by (intro conjI impI;
      (rule message_state message_selector message_detail, erule operation_fails [OF assms]))

theorem operation_error_embeds_witness:
  "embeds (fst (sendKeys (pe_with 0 0 [7] 1) ''selenium'' start)) ''#kw''
   \<and> embeds (fst (sendKeys (pe_with 0 0 [7] 1) ''selenium'' start)) ''stale 7''
   \<and> embeds (fst (hover (pe_with 0 0 [7] 1) start)) ''boom''"
  using operation_error_embeds
          [of "pe_with 0 0 [7] 1" start "Some 7"
              "\<lparr>world = (1, 1),
                calls = [WaitLocated ''#kw'' 5000 (Some ''search box''),
                         WaitVisible (Some 7) 5000 ''Element is not visible: search box'']\<rparr>"
              "Foreign ''stale 7''"
              "\<lparr>world = (1, 1),
                calls = [WaitLocated ''#kw'' 5000 (Some ''search box''),
                         WaitVisible (Some 7) 5000 ''Element is not visible: search box'',
                         ElementCall (SendKeys ''selenium'') 7]\<rparr>" "''selenium''"]
        operation_error_embeds
          [of "pe_with 0 0 [7] 1" start "Some 7"
              "\<lparr>world = (1, 1),
                calls = [WaitLocated ''#kw'' 5000 (Some ''search box''),
                         WaitVisible (Some 7) 5000 ''Element is not visible: search box'']\<rparr>"
              "Foreign ''boom''"
              "\<lparr>world = (1, 1),
                calls = [WaitLocated ''#kw'' 5000 (Some ''search box''),
                         WaitVisible (Some 7) 5000 ''Element is not visible: search box'',
                         ActionsPerform Move (Some 7)]\<rparr>"]
  by (simp add: run_defs getElement_def findElement_def locate_loop.simps [of _ _ _ _ 0]
        visible_loop.simps [of _ _ _ _ _ 0] num_str_def)

subsection \<open>The element set\<close>

text \<open>
  Claim C7. On a document state in which the selector matches the handles \<open>es\<close>, so that
  \<open>length_of\<close> (the count) is \<open>length es\<close>: for every index \<open>ix\<close> at or above the count
  \<open>findByIndex\<close> fails with the error "Element not found at index \<open>ix\<close>", and for every
  \<open>ix\<close> below the count it returns \<open>es[ix]\<close>, the entry of \<open>elements\<close> at \<open>ix\<close>, which
  for \<open>0 \<le> ix\<close> is the handle at that position.
\<close>

theorem findByIndex_range:
  assumes "elements pes s = (Inr es, s1)"
  shows "length_of pes s = (Inr (int (length es)), s1)
       \<and> (ix \<ge> int (length es) \<longrightarrow>
            findByIndex pes ix s
              = (Inl (Error (''Element not found at index '' @ num_str ix)), s1))
       \<and> (ix < int (length es) \<longrightarrow> findByIndex pes ix s = (Inr (js_index es ix), s1))
       \<and> (0 \<le> ix \<and> ix < int (length es) \<longrightarrow>
            findByIndex pes ix s = (Inr (Some (es ! nat ix)), s1))"
  using assms by (simp add: length_of_def findByIndex_def js_index_def)

theorem findByIndex_range_witness:
  "findByIndex \<lparr>pes_locator = ''.row'', pes_driver = scripted 0 0 [10, 11] []\<rparr> 2 start
     = (Inl (Error ''Element not found at index 2''),
        \<lparr>world = (0, 0), calls = [FindElements ''.row'']\<rparr>)
   \<and> findByIndex \<lparr>pes_locator = ''.row'', pes_driver = scripted 0 0 [10, 11] []\<rparr> 1 start
     = (Inr (Some 11), \<lparr>world = (0, 0), calls = [FindElements ''.row'']\<rparr>)"
  using findByIndex_range
          [of "\<lparr>pes_locator = ''.row'', pes_driver = scripted 0 0 [10, 11] []\<rparr>" start
              "[10, 11]" "\<lparr>world = (0, 0), calls = [FindElements ''.row'']\<rparr>" 2]
        findByIndex_range
          [of "\<lparr>pes_locator = ''.row'', pes_driver = scripted 0 0 [10, 11] []\<rparr>" start
              "[10, 11]" "\<lparr>world = (0, 0), calls = [FindElements ''.row'']\<rparr>" 1]
  by (simp add: elements_def driver_findElements_def scripted_def start_def num_str_def
        js_index_def)

text \<open>
  Claim C8. On a document state in which the selector matches no element, \<open>first\<close> and
  \<open>last\<close> (here \<open>last_of\<close>) each fail with the error "No elements found", and the count
  \<open>length_of\<close> is 0.
\<close>

theorem empty_set_first_last_length:
  assumes "elements pes s = (Inr [], s1)"
  shows "first pes s = (Inl (Error ''No elements found''), s1)
       \<and> last_of pes s = (Inl (Error ''No elements found''), s1)
       \<and> length_of pes s = (Inr 0, s1)"
  using assms by (simp add: first_def last_of_def length_of_def)

theorem empty_set_first_last_length_witness:
  "first \<lparr>pes_locator = ''.row'', pes_driver = scripted 0 0 [] []\<rparr> start
     = (Inl (Error ''No elements found''), \<lparr>world = (0, 0), calls = [FindElements ''.row'']\<rparr>)
   \<and> last_of \<lparr>pes_locator = ''.row'', pes_driver = scripted 0 0 [] []\<rparr> start
     = (Inl (Error ''No elements found''), \<lparr>world = (0, 0), calls = [FindElements ''.row'']\<rparr>)
   \<and> length_of \<lparr>pes_locator = ''.row'', pes_driver = scripted 0 0 [] []\<rparr> start
     = (Inr 0, \<lparr>world = (0, 0), calls = [FindElements ''.row'']\<rparr>)"
  using empty_set_first_last_length
          [of "\<lparr>pes_locator = ''.row'', pes_driver = scripted 0 0 [] []\<rparr>" start
              "\<lparr>world = (0, 0), calls = [FindElements ''.row'']\<rparr>"]
  by (simp add: elements_def driver_findElements_def scripted_def start_def)

text \<open>
  Claim C10. For every negative index \<open>ix\<close>, \<open>findByIndex\<close> does not fail with the
  index error: its only test is \<open>ix \<ge> length\<close>, which a negative index passes, and the
  call returns \<^verbatim>\<open>undefined\<close> (\<open>None\<close>) in place of a handle.
\<close>

theorem findByIndex_negative:
  assumes "ix < 0" and "elements pes s = (Inr es, s1)"
  shows "findByIndex pes ix s = (Inr None, s1)"
  using assms by (simp add: findByIndex_def js_index_def)

theorem findByIndex_negative_witness:
  "findByIndex \<lparr>pes_locator = ''.row'', pes_driver = scripted 0 0 [10, 11] []\<rparr> (- 1) start
     = (Inr None, \<lparr>world = (0, 0), calls = [FindElements ''.row'']\<rparr>)"
  using findByIndex_negative
          [of "- 1" "\<lparr>pes_locator = ''.row'', pes_driver = scripted 0 0 [10, 11] []\<rparr>" start
              "[10, 11]" "\<lparr>world = (0, 0), calls = [FindElements ''.row'']\<rparr>"]
  by (simp add: elements_def driver_findElements_def scripted_def start_def)

subsection \<open>clickAll\<close>

lemma click_each_calls:
  "click_each d es k s = (ps, s') \<Longrightarrow> calls s' = calls s @ map (ElementCall Click) es"
proof (induction es arbitrary: k s ps s')
  case Nil
  then show ?case by simp
next
  case (Cons e es)
  obtain r s1 where inv: "elem_invoke d Click (Some e) s = (r, s1)"
    by (cases "elem_invoke d Click (Some e) s")
  obtain qs s2 where rest: "click_each d es (k + 1) s1 = (qs, s2)"
    by (cases "click_each d es (k + 1) s1")
  from inv have "calls s1 = calls s @ [ElementCall Click e]"
    by (auto simp: elem_invoke_def split: prod.splits)
  moreover from Cons.IH [OF rest] have "calls s2 = calls s1 @ map (ElementCall Click) es" .
  moreover from Cons.prems inv rest have "s' = s2" by simp
  ultimately show ?case by simp
qed

lemma click_each_length: "click_each d es k s = (ps, s') \<Longrightarrow> length ps = length es"
proof (induction es arbitrary: k s ps s')
  case Nil
  then show ?case by simp
next
  case (Cons e es)
  then show ?case
    by (fastforce split: prod.splits)
qed

lemma click_results_length: "length (click_results d es w) = length es"
  by (induction es arbitrary: w) (auto split: prod.splits)

lemma click_each_results:
  "click_each d es k s = (ps, s') \<Longrightarrow> i < length es
   \<Longrightarrow> ps ! i =
        (case click_results d es (world s) ! i of
           Inl err \<Rightarrow>
             Inl (Error (CLICK_FAILED_INDEX @ num_str (int (k + i)) @ '','' @ toString err))
         | Inr v \<Rightarrow> Inr ())"
proof (induction es arbitrary: k s ps s' i)
  case Nil
  then show ?case by simp
next
  case (Cons e es)
  obtain r w1 where call: "element_call d Click e (world s) = (r, w1)"
    by (cases "element_call d Click e (world s)")
  let ?s1 = "\<lparr>world = w1, calls = calls s @ [ElementCall Click e]\<rparr>"
  from call have inv: "elem_invoke d Click (Some e) s = (r, ?s1)"
    by (simp add: elem_invoke_def)
  obtain qs s2 where rest: "click_each d es (k + 1) ?s1 = (qs, s2)"
    by (cases "click_each d es (k + 1) ?s1")
  let ?p = "case r of
              Inl err \<Rightarrow> Inl (Error (CLICK_FAILED_INDEX @ num_str (int k) @ '','' @ toString err))
            | Inr _ \<Rightarrow> Inr ()"
  from Cons.prems(1) inv rest have ps: "ps = ?p # qs" by simp
  from call have rs: "click_results d (e # es) (world s) = r # click_results d es w1"
    by simp
  show ?case
  proof (cases i)
    case 0
    with ps rs show ?thesis
      by (simp split: sum.splits)
  next
    case (Suc j)
    with Cons.prems(2) have j: "j < length es" by simp
    from Suc have eq: "k + 1 + j = k + i" by simp
    from Cons.IH [OF rest j]
    have "qs ! j =
            (case click_results d es w1 ! j of
               Inl err \<Rightarrow>
                 Inl (Error (CLICK_FAILED_INDEX @ num_str (int (k + i)) @ '','' @ toString err))
             | Inr v \<Rightarrow> Inr ())"
      unfolding eq by simp
    with Suc ps rs show ?thesis by simp
  qed
qed

lemma click_each_isl:
  assumes "click_each d es k s = (ps, s')" and "i < length es"
  shows "isl (ps ! i) = isl (click_results d es (world s) ! i)"
  using click_each_results [OF assms] by (simp split: sum.splits)

lemma Promise_all_rejected:
  assumes "set [0..<length ps] \<subseteq> set order" and "\<exists>r\<in>set ps. isl r"
  shows "\<exists>i. i < length ps \<and> isl (ps ! i)
           \<and> find (\<lambda>j. j < length ps \<and> isl (ps ! j)) order = Some i
           \<and> Promise_all ps order = Inl (projl (ps ! i))"
proof -
  from assms(2) obtain j where "j < length ps" and "isl (ps ! j)"
    by (auto simp: in_set_conv_nth)
  with assms(1) have "\<exists>x\<in>set order. x < length ps \<and> isl (ps ! x)"
    by auto
  then obtain i where f: "find (\<lambda>j. j < length ps \<and> isl (ps ! j)) order = Some i"
    by (cases "find (\<lambda>j. j < length ps \<and> isl (ps ! j)) order") (auto simp: find_None_iff)
  then have "i < length ps \<and> isl (ps ! i)"
    by (auto simp: find_Some_iff)
  with f show ?thesis
    by (auto simp: Promise_all_def)
qed

lemma Promise_all_fulfilled:
  assumes "\<forall>r\<in>set ps. \<not> isl r"
  shows "Promise_all ps order = Inr (map projr ps)"
proof -
  from assms have "find (\<lambda>j. j < length ps \<and> isl (ps ! j)) order = None"
    by (auto simp: find_None_iff)
  then show ?thesis
    by (simp add: Promise_all_def)
qed

text \<open>
  Claim C3, as the spec states it, fails: on two elements whose clicks both fail, with
  the first settling first, \<open>clickAll\<close> clicks both, and its error names index 0 and the
  failure of the first element only; the failure of the second element (\<open>stale 11\<close>) is
  not in the message.
\<close>

theorem clickAll_counterexample:
  "clickAll \<lparr>pes_locator = ''.row'', pes_driver = scripted 0 0 [10, 11] [10, 11]\<rparr> [0, 1] start
     = (Inl (Error (CLICK_FAILED @ ''Error: '' @ CLICK_FAILED_INDEX @ ''0,stale 10'')),
        \<lparr>world = (0, 0),
         calls = [FindElements ''.row'', ElementCall Click 10, ElementCall Click 11]\<rparr>)
   \<and> \<not> embeds (fst (clickAll \<lparr>pes_locator = ''.row'',
                                pes_driver = scripted 0 0 [10, 11] [10, 11]\<rparr> [0, 1] start))
               ''stale 11''"
  by code_simp

text \<open>
  Claim C3, amended. Let \<open>es\<close> be the matched element set, \<open>rs\<close> the outcomes that the
  driver gives to the clicks on \<open>es\<close>, and \<open>order\<close> an order of settling that lists all
  indices. Then \<open>clickAll\<close> issues a click on every element exactly once, in index order
  and whatever the outcomes of the other clicks; it succeeds when the driver fails no
  click; and when the driver fails one or more clicks it fails with an error that names
  one failed click only, the first in \<open>order\<close> that the driver failed, with its index and
  the rendering of that click's failure.
\<close>

theorem clickAll_clicks_all_reports_first:
  assumes "elements pes s = (Inr es, s1)"
    and "set [0..<length es] \<subseteq> set order"
    and "rs = click_results (pes_driver pes) es (world s1)"
  shows "calls (snd (clickAll pes order s)) = calls s1 @ map (ElementCall Click) es
       \<and> length rs = length es
       \<and> ((\<forall>r\<in>set rs. \<not> isl r) \<longrightarrow> fst (clickAll pes order s) = Inr Void)
       \<and> ((\<exists>r\<in>set rs. isl r) \<longrightarrow>
            (\<exists>i. i < length es \<and> isl (rs ! i)
               \<and> find (\<lambda>j. j < length rs \<and> isl (rs ! j)) order = Some i
               \<and> fst (clickAll pes order s)
                   = Inl (Error (CLICK_FAILED @ ''Error: '' @ CLICK_FAILED_INDEX
                                 @ num_str (int i) @ '','' @ toString (projl (rs ! i))))))"
proof -
  obtain ps s2 where ce: "click_each (pes_driver pes) es 0 s1 = (ps, s2)"
    by (cases "click_each (pes_driver pes) es 0 s1")
  have len: "length ps = length es"
    using ce by (rule click_each_length)
  have lenr: "length rs = length es"
    using assms(3) by (simp add: click_results_length)
  have isl_eq: "isl (ps ! i) = isl (rs ! i)" if "i < length es" for i
    using click_each_isl [OF ce that] assms(3) by simp
  have same: "(\<lambda>j. j < length ps \<and> isl (ps ! j)) = (\<lambda>j. j < length rs \<and> isl (rs ! j))"
    using len lenr isl_eq by auto
  have some: "(\<exists>r\<in>set ps. isl r) = (\<exists>r\<in>set rs. isl r)"
  proof
    assume "\<exists>r\<in>set ps. isl r"
    then obtain i where "i < length ps" and "isl (ps ! i)"
      by (auto simp: in_set_conv_nth)
    with len lenr isl_eq have "i < length rs" and "isl (rs ! i)" by auto
    then show "\<exists>r\<in>set rs. isl r"
      using nth_mem by blast
  next
    assume "\<exists>r\<in>set rs. isl r"
    then obtain i where "i < length rs" and "isl (rs ! i)"
      by (auto simp: in_set_conv_nth)
    with len lenr isl_eq have "i < length ps" and "isl (ps ! i)" by auto
    then show "\<exists>r\<in>set ps. isl r"
      using nth_mem by blast
  qed
  have "snd (clickAll pes order s) = s2"
    using assms(1) ce by (simp add: clickAll_def split: sum.splits)
  then have tr: "calls (snd (clickAll pes order s)) = calls s1 @ map (ElementCall Click) es"
    using click_each_calls [OF ce] by simp
  have ok: "fst (clickAll pes order s) = Inr Void" if "\<forall>r\<in>set rs. \<not> isl r"
  proof -
    from that some have "\<forall>r\<in>set ps. \<not> isl r" by blast
    then have "Promise_all ps order = Inr (map projr ps)"
      by (rule Promise_all_fulfilled)
    then show ?thesis
      using assms(1) ce by (simp add: clickAll_def)
  qed
  have bad: "\<exists>i. i < length es \<and> isl (rs ! i)
               \<and> find (\<lambda>j. j < length rs \<and> isl (rs ! j)) order = Some i
               \<and> fst (clickAll pes order s)
                   = Inl (Error (CLICK_FAILED @ ''Error: '' @ CLICK_FAILED_INDEX
                                 @ num_str (int i) @ '','' @ toString (projl (rs ! i))))"
    if "\<exists>r\<in>set rs. isl r"
  proof -
    from that some have "\<exists>r\<in>set ps. isl r" by blast
    with assms(2) len obtain i where i: "i < length ps" "isl (ps ! i)"
      and f: "find (\<lambda>j. j < length ps \<and> isl (ps ! j)) order = Some i"
      and p: "Promise_all ps order = Inl (projl (ps ! i))"
      using Promise_all_rejected [of ps order] by auto
    from i len have ie: "i < length es" by simp
    with i(2) have ri: "isl (rs ! i)" by (simp add: isl_eq)
    then obtain err where err: "rs ! i = Inl err"
      by (cases "rs ! i") auto
    with click_each_results [OF ce ie] assms(3)
    have m: "ps ! i = Inl (Error (CLICK_FAILED_INDEX @ num_str (int i) @ '','' @ toString err))"
      by simp
    have "CLICK_FAILED_INDEX @ num_str (int i) @ '','' @ toString err \<noteq> []"
      by (simp add: CLICK_FAILED_INDEX_def)
    with p m err have "fst (clickAll pes order s)
            = Inl (Error (CLICK_FAILED @ ''Error: '' @ CLICK_FAILED_INDEX
                          @ num_str (int i) @ '','' @ toString (projl (rs ! i))))"
      using assms(1) ce by (simp add: clickAll_def)
    with ie ri f same show ?thesis
      by auto
  qed
  from tr lenr ok bad show ?thesis by blast
qed

theorem clickAll_clicks_all_reports_first_witness:
  "clickAll \<lparr>pes_locator = ''.row'', pes_driver = scripted 0 0 [10, 11, 12, 13, 14] [12]\<rparr>
     [0, 1, 2, 3, 4] start
   = (Inl (Error (CLICK_FAILED @ ''Error: '' @ CLICK_FAILED_INDEX @ ''2,stale 12'')),
      \<lparr>world = (0, 0),
       calls = [FindElements ''.row'', ElementCall Click 10, ElementCall Click 11,
                ElementCall Click 12, ElementCall Click 13, ElementCall Click 14]\<rparr>)"
proof -
  let ?pes = "\<lparr>pes_locator = ''.row'', pes_driver = scripted 0 0 [10, 11, 12, 13, 14] [12]\<rparr>"
  let ?rs = "[Inr Void, Inr Void, Inl (Foreign ''stale 12''), Inr Void, Inr Void]"
  have rs: "?rs = click_results (pes_driver ?pes) [10, 11, 12, 13, 14] (world \<lparr>world = (0, 0), calls = [FindElements ''.row'']\<rparr>)"
    by (simp add: scripted_def num_str_def)
  have el: "elements ?pes start
              = (Inr [10, 11, 12, 13, 14], \<lparr>world = (0, 0), calls = [FindElements ''.row'']\<rparr>)"
    by (simp add: elements_def driver_findElements_def scripted_def start_def)
  have ord: "set [0..<length [10, 11, 12, 13, 14 :: nat]] \<subseteq> set [0, 1, 2, 3, 4 :: nat]"
    by (simp add: upt_rec)
  note t = clickAll_clicks_all_reports_first [OF el ord rs]
  from t have c: "calls (snd (clickAll ?pes [0, 1, 2, 3, 4] start))
      = [FindElements ''.row'', ElementCall Click 10, ElementCall Click 11,
         ElementCall Click 12, ElementCall Click 13, ElementCall Click 14]"
    by simp
  from t have "\<exists>i. i < 5 \<and> find (\<lambda>j. j < length ?rs \<and> isl (?rs ! j)) [0, 1, 2, 3, 4] = Some i
       \<and> fst (clickAll ?pes [0, 1, 2, 3, 4] start)
           = Inl (Error (CLICK_FAILED @ ''Error: '' @ CLICK_FAILED_INDEX
                         @ num_str (int i) @ '','' @ toString (projl (?rs ! i))))"
    by simp
  then have r: "fst (clickAll ?pes [0, 1, 2, 3, 4] start)
           = Inl (Error (CLICK_FAILED @ ''Error: '' @ CLICK_FAILED_INDEX @ ''2,stale 12''))"
    by (auto simp: num_str_def)
  have w: "world (snd (clickAll ?pes [0, 1, 2, 3, 4] start)) = (0, 0)"
    by (simp add: clickAll_def elements_def driver_findElements_def scripted_def start_def
          elem_invoke_def split: prod.splits sum.splits)
  from c r w show ?thesis
    by (cases "clickAll ?pes [0, 1, 2, 3, 4] start"; cases "snd (clickAll ?pes [0, 1, 2, 3, 4] start)") auto
qed

end
